theory Spec2Isabelle
  imports Main "HOL-Library.Word"
begin

unbundle bit_operations_syntax

section \<open>Data model\<close>

text \<open>
  The allocator core of easySTL: \<^verbatim>\<open>MallocAllocator\<close> (malloc_allocator.h),
  \<^verbatim>\<open>MemoryPoolList\<close> and \<^verbatim>\<open>MemoryPoolAllocator\<close> (memory_pool_allocator.h) and
  \<^verbatim>\<open>AllocatorWrapper\<close> (allocator_wrapper.h).

  \<^verbatim>\<open>std::size_t\<close> and every pointer are 64-bit words; \<^verbatim>\<open>nullptr\<close> is \<open>0\<close>.
  All arithmetic on them wraps around, as the unsigned arithmetic of the source does.
\<close>

type_synonym size_t = "64 word"
type_synonym addr = "64 word"

text \<open>
  What stops a call other than a return:
  \<^item> \<open>Aborted\<close>: \<^verbatim>\<open>std::abort()\<close>;
  \<^item> \<open>IndexOutOfBounds\<close>: an access \<^verbatim>\<open>freelist_[index]\<close> with \<open>index \<ge> kFreeListNum\<close>;
  \<^item> \<open>NullPointer\<close>: a write or read through \<^verbatim>\<open>nullptr\<close>, or pointer arithmetic
    \<^verbatim>\<open>nullptr + n\<close> with \<open>n \<noteq> 0\<close> (both undefined in C++).
\<close>

datatype error = Aborted | IndexOutOfBounds | NullPointer

text \<open>
  The process-wide mutable state. The static members of \<^verbatim>\<open>MemoryPoolAllocator\<close>
  (\<^verbatim>\<open>freelist_\<close>, \<^verbatim>\<open>freespacestart_\<close>, \<^verbatim>\<open>freespaceend_\<close>, \<^verbatim>\<open>mallocoffset_\<close>), the static
  \<^verbatim>\<open>MallocAllocator::CustomerOomHandler\<close> (a function pointer, \<open>0\<close> when none is
  installed), the raw memory as far as the allocator reads and writes it (\<open>mem a\<close> is the
  pointer-sized word stored at address \<open>a\<close>: the intrusive link of a free block), and the
  state of the system heap behind \<^verbatim>\<open>malloc\<close>/\<^verbatim>\<open>free\<close>, of a type \<open>'h\<close> left open.

  \<^verbatim>\<open>freelist_[kFreeListNum]\<close> is an array of \<^verbatim>\<open>MemoryPoolList\<close>, each holding only its head
  \<^verbatim>\<open>node_\<close>; \<open>freelist w i\<close> is the head of list \<open>i\<close>. Every access checks the index.
\<close>

record 'h world =
  freelist :: "nat \<Rightarrow> addr"
  freespacestart :: addr
  freespaceend :: addr
  mallocoffset :: size_t
  CustomerOomHandler :: addr
  mem :: "addr \<Rightarrow> addr"
  sysheap :: 'h

text \<open>
  What the program calls and does not define: \<^verbatim>\<open>malloc\<close> (a null result is failure),
  \<^verbatim>\<open>free\<close>, and the code behind an installed handler pointer, which may change any
  part of the state or end the process.
\<close>

record 'h env =
  sys_malloc :: "size_t \<Rightarrow> 'h \<Rightarrow> addr \<times> 'h"
  sys_free :: "addr \<Rightarrow> 'h \<Rightarrow> 'h"
  call_handler :: "addr \<Rightarrow> 'h world \<Rightarrow> error + 'h world"

text \<open>A call that may also not return: \<open>None\<close> is a call that runs forever.\<close>

type_synonym 'a outcome = "(error + 'a) option"

definition kAlign :: size_t where
  "kAlign = 8"

definition kMaxBytes :: size_t where
  "kMaxBytes = 128"

definition kFreeListNum :: nat where
  "kFreeListNum = 128 div 8"

definition max_retries :: nat where
  "max_retries = 3"

definition ptr_add :: "addr \<Rightarrow> size_t \<Rightarrow> error + addr" where
  "ptr_add p n = (if p = 0 \<and> n \<noteq> 0 then Inl NullPointer else Inr (p + n))"

section \<open>MallocAllocator\<close>

text \<open>
  \<^verbatim>\<open>MallocInOom\<close>: the loop \<^verbatim>\<open>while (retry_count < max_retries)\<close>, from the value of
  \<^verbatim>\<open>retry_count\<close> it is entered with.
\<close>

function MallocInOom_loop ::
  "'h env \<Rightarrow> size_t \<Rightarrow> nat \<Rightarrow> 'h world \<Rightarrow> error + (addr \<times> 'h world)" where
  "MallocInOom_loop env sz retry_count w =
     (if retry_count < max_retries then
        (let my_malloc_handler = CustomerOomHandler w in
         if my_malloc_handler = 0 then Inl Aborted
         else
           (case call_handler env my_malloc_handler w of
              Inl e \<Rightarrow> Inl e
            | Inr w1 \<Rightarrow>
                (case sys_malloc env sz (sysheap w1) of
                   (result, h) \<Rightarrow>
                     if result \<noteq> 0 then Inr (result, w1\<lparr>sysheap := h\<rparr>)
                     else MallocInOom_loop env sz (retry_count + 1) (w1\<lparr>sysheap := h\<rparr>))))
      else Inr (0, w))"
  by pat_completeness auto
termination
  by (relation "measure (\<lambda>(env, sz, retry_count, w). max_retries - retry_count)") auto

definition MallocInOom :: "'h env \<Rightarrow> size_t \<Rightarrow> 'h world \<Rightarrow> error + (addr \<times> 'h world)" where
  "MallocInOom env sz w = MallocInOom_loop env sz 0 w"

definition MallocAllocator_Allocate ::
  "'h env \<Rightarrow> size_t \<Rightarrow> 'h world \<Rightarrow> error + (addr \<times> 'h world)" where
  "MallocAllocator_Allocate env sz w =
     (case sys_malloc env sz (sysheap w) of
        (result, h) \<Rightarrow>
          if result = 0 then MallocInOom env sz (w\<lparr>sysheap := h\<rparr>)
          else Inr (result, w\<lparr>sysheap := h\<rparr>))"

definition MallocAllocator_Deallocate :: "'h env \<Rightarrow> addr \<Rightarrow> size_t \<Rightarrow> 'h world \<Rightarrow> 'h world" where
  "MallocAllocator_Deallocate env obj sz w = w\<lparr>sysheap := sys_free env obj (sysheap w)\<rparr>"

definition SetMallocHandler :: "addr \<Rightarrow> 'h world \<Rightarrow> addr \<times> 'h world" where
  "SetMallocHandler func w = (CustomerOomHandler w, w\<lparr>CustomerOomHandler := func\<rparr>)"

section \<open>MemoryPoolList\<close>

text \<open>
  The three operations of the list whose head is \<^verbatim>\<open>freelist_[i].node_\<close>.
  \<^verbatim>\<open>GetNextNode(node)\<close> is the word stored at \<open>node\<close>.
\<close>

definition Empty :: "nat \<Rightarrow> 'h world \<Rightarrow> bool" where
  "Empty i w = (freelist w i = 0)"

definition Push :: "nat \<Rightarrow> addr \<Rightarrow> 'h world \<Rightarrow> error + 'h world" where
  "Push i node w =
     (if node = 0 then Inl NullPointer
      else Inr (w\<lparr>mem := (mem w)(node := freelist w i),
                  freelist := (freelist w)(i := node)\<rparr>))"

definition Pop :: "nat \<Rightarrow> 'h world \<Rightarrow> error + (addr \<times> 'h world)" where
  "Pop i w =
     (let result = freelist w i in
      if result = 0 then Inl NullPointer
      else Inr (result, w\<lparr>freelist := (freelist w)(i := mem w result)\<rparr>))"

section \<open>MemoryPoolAllocator\<close>

definition RoundUp :: "size_t \<Rightarrow> size_t" where
  "RoundUp bytes = (bytes + kAlign - 1) AND NOT (kAlign - 1)"

definition GetFreelistIndex :: "size_t \<Rightarrow> size_t" where
  "GetFreelistIndex bytes = (bytes + kAlign - 1) div kAlign - 1"

text \<open>An index into \<^verbatim>\<open>freelist_[kFreeListNum]\<close> that is inside the array.\<close>

definition in_bounds :: "size_t \<Rightarrow> bool" where
  "in_bounds index = (unat index < kFreeListNum)"

text \<open>
  The scan of \<^verbatim>\<open>ChunkAlloc\<close> after a failed \<^verbatim>\<open>malloc\<close>:
  \<^verbatim>\<open>for (i = size; i <= kMaxBytes; i += kAlign) if (!freelist_[GetFreelistIndex(i)].Empty())\<close>.
  The result is the first \<open>i\<close> whose list has a block, if any.
\<close>

function scan_freelists :: "size_t \<Rightarrow> 'h world \<Rightarrow> error + size_t option" where
  "scan_freelists i w =
     (if i \<le> kMaxBytes then
        (if \<not> in_bounds (GetFreelistIndex i) then Inl IndexOutOfBounds
         else if \<not> Empty (unat (GetFreelistIndex i)) w then Inr (Some i)
         else scan_freelists (i + kAlign) w)
      else Inr None)"
  by pat_completeness auto
termination
proof (relation "measure (\<lambda>(i, w). 129 - unat i)")
  show "wf (measure (\<lambda>(i, w :: 'h world). 129 - unat i))"
    by simp
next
  fix i :: size_t and w :: "'h world"
  assume "i \<le> kMaxBytes"
  then have "unat i \<le> 128"
    by (simp add: kMaxBytes_def word_le_nat_alt)
  then have "unat (i + kAlign) = unat i + 8"
    by (simp add: kAlign_def unat_word_ariths)
  with \<open>unat i \<le> 128\<close> show "((i + kAlign, w), (i, w)) \<in> measure (\<lambda>(i, w). 129 - unat i)"
    by simp
qed

text \<open>
  The tail of \<^verbatim>\<open>ChunkAlloc\<close> once \<^verbatim>\<open>freespacestart_\<close> holds a new arena of \<open>bytesget\<close> bytes:
  \<^verbatim>\<open>mallocoffset_ += bytesget; freespaceend_ = freespacestart_ + bytesget;\<close>
\<close>

definition new_arena :: "size_t \<Rightarrow> 'h world \<Rightarrow> error + 'h world" where
  "new_arena bytesget w =
     (case ptr_add (freespacestart w) bytesget of
        Inl e \<Rightarrow> Inl e
      | Inr e \<Rightarrow> Inr (w\<lparr>mallocoffset := mallocoffset w + bytesget, freespaceend := e\<rparr>))"

text \<open>
  \<^verbatim>\<open>if (bytesleft >= kAlign) freelist_[GetFreelistIndex(bytesleft)].Push(freespacestart_);\<close>
\<close>

definition salvage :: "size_t \<Rightarrow> 'h world \<Rightarrow> error + 'h world" where
  "salvage bytesleft w =
     (if bytesleft \<ge> kAlign then
        (if in_bounds (GetFreelistIndex bytesleft)
         then Push (unat (GetFreelistIndex bytesleft)) (freespacestart w) w
         else Inl IndexOutOfBounds)
      else Inr w)"

text \<open>
  \<^verbatim>\<open>ChunkAlloc(size, chunknums)\<close>: the result is the chunk, the value left in the
  reference parameter \<^verbatim>\<open>chunknums\<close>, and the state. The function calls itself after
  it has replaced the arena and need not return for every \<open>size\<close>, so not returning is a
  value of the model (\<open>None\<close>).
\<close>

partial_function (option) ChunkAlloc ::
  "'h env \<Rightarrow> size_t \<Rightarrow> size_t \<Rightarrow> 'h world \<Rightarrow> (addr \<times> size_t \<times> 'h world) outcome" where
  "ChunkAlloc env sz chunknums w =
     (let bytesneed = sz * chunknums;
          bytesleft = freespaceend w - freespacestart w
      in
      if bytesleft \<ge> bytesneed then
        (case ptr_add (freespacestart w) bytesneed of
           Inl e \<Rightarrow> Some (Inl e)
         | Inr p \<Rightarrow> Some (Inr (freespacestart w, chunknums, w\<lparr>freespacestart := p\<rparr>)))
      else if bytesleft \<ge> sz then
        (let chunknums' = bytesleft div sz;
             bytesneed' = chunknums' * sz
         in
         case ptr_add (freespacestart w) bytesneed' of
           Inl e \<Rightarrow> Some (Inl e)
         | Inr p \<Rightarrow> Some (Inr (freespacestart w, chunknums', w\<lparr>freespacestart := p\<rparr>)))
      else
        (let bytesget = bytesneed * 2 + RoundUp (drop_bit 4 (mallocoffset w)) in
         case salvage bytesleft w of
           Inl e \<Rightarrow> Some (Inl e)
         | Inr w1 \<Rightarrow>
             (case sys_malloc env bytesget (sysheap w1) of
                (p, h) \<Rightarrow>
                  (let w2 = w1\<lparr>freespacestart := p, sysheap := h\<rparr> in
                   if p = 0 then
                     (case scan_freelists sz w2 of
                        Inl e \<Rightarrow> Some (Inl e)
                      | Inr (Some i) \<Rightarrow>
                          (case Pop (unat (GetFreelistIndex i)) w2 of
                             Inl e \<Rightarrow> Some (Inl e)
                           | Inr (blk, w3) \<Rightarrow>
                               (case ptr_add blk i of
                                  Inl e \<Rightarrow> Some (Inl e)
                                | Inr e \<Rightarrow>
                                    ChunkAlloc env sz chunknums
                                      (w3\<lparr>freespacestart := blk, freespaceend := e\<rparr>)))
                      | Inr None \<Rightarrow>
                          (case MallocAllocator_Allocate env bytesget (w2\<lparr>freespaceend := 0\<rparr>) of
                             Inl e \<Rightarrow> Some (Inl e)
                           | Inr (q, w3) \<Rightarrow>
                               (case new_arena bytesget (w3\<lparr>freespacestart := q\<rparr>) of
                                  Inl e \<Rightarrow> Some (Inl e)
                                | Inr w4 \<Rightarrow> ChunkAlloc env sz chunknums w4)))
                   else
                     (case new_arena bytesget w2 of
                        Inl e \<Rightarrow> Some (Inl e)
                      | Inr w4 \<Rightarrow> ChunkAlloc env sz chunknums w4)))))"

text \<open>
  The loop of \<^verbatim>\<open>ReFill\<close>: \<^verbatim>\<open>for (int i = 1; i < static_cast<int>(chunknums); i++)\<close>, from
  the value of \<open>i\<close> it is entered with; \<open>n\<close> is \<^verbatim>\<open>static_cast<int>(chunknums)\<close>.
\<close>

function ReFill_loop :: "size_t \<Rightarrow> int \<Rightarrow> int \<Rightarrow> addr \<Rightarrow> 'h world \<Rightarrow> error + 'h world" where
  "ReFill_loop sz i n nextchunk w =
     (if i < n then
        (if \<not> in_bounds (GetFreelistIndex sz) then Inl IndexOutOfBounds
         else
           (case Push (unat (GetFreelistIndex sz)) nextchunk w of
              Inl e \<Rightarrow> Inl e
            | Inr w1 \<Rightarrow>
                (case ptr_add nextchunk sz of
                   Inl e \<Rightarrow> Inl e
                 | Inr nextchunk' \<Rightarrow> ReFill_loop sz (i + 1) n nextchunk' w1)))
      else Inr w)"
  by pat_completeness auto
termination
  by (relation "measure (\<lambda>(sz, i, n, nextchunk, w). nat (n - i))") auto

definition ReFill :: "'h env \<Rightarrow> size_t \<Rightarrow> 'h world \<Rightarrow> (addr \<times> 'h world) outcome" where
  "ReFill env sz w =
     (case ChunkAlloc env sz 20 w of
        None \<Rightarrow> None
      | Some (Inl e) \<Rightarrow> Some (Inl e)
      | Some (Inr (chunk, chunknums, w1)) \<Rightarrow>
          (case ptr_add chunk sz of
             Inl e \<Rightarrow> Some (Inl e)
           | Inr nextchunk \<Rightarrow>
               if chunknums = 1 then Some (Inr (chunk, w1))
               else
                 (case ReFill_loop sz 1 (sint (ucast chunknums :: 32 word)) nextchunk w1 of
                    Inl e \<Rightarrow> Some (Inl e)
                  | Inr w2 \<Rightarrow> Some (Inr (chunk, w2)))))"

definition MemoryPoolAllocator_Allocate ::
  "'h env \<Rightarrow> size_t \<Rightarrow> 'h world \<Rightarrow> (addr \<times> 'h world) outcome" where
  "MemoryPoolAllocator_Allocate env sz w =
     (if sz > kMaxBytes then Some (MallocAllocator_Allocate env sz w)
      else
        (let index = GetFreelistIndex sz in
         if \<not> in_bounds index then Some (Inl IndexOutOfBounds)
         else if Empty (unat index) w then ReFill env (RoundUp sz) w
         else Some (Pop (unat index) w)))"

definition MemoryPoolAllocator_Deallocate ::
  "'h env \<Rightarrow> addr \<Rightarrow> size_t \<Rightarrow> 'h world \<Rightarrow> error + 'h world" where
  "MemoryPoolAllocator_Deallocate env obj sz w =
     (if sz > kMaxBytes then Inr (MallocAllocator_Deallocate env obj sz w)
      else if \<not> in_bounds (GetFreelistIndex sz) then Inl IndexOutOfBounds
      else Push (unat (GetFreelistIndex sz)) obj w)"

definition MemoryPoolAllocator_Reallocate ::
  "'h env \<Rightarrow> addr \<Rightarrow> size_t \<Rightarrow> size_t \<Rightarrow> 'h world \<Rightarrow> (addr \<times> 'h world) outcome" where
  "MemoryPoolAllocator_Reallocate env obj oldsize newsize w =
     (if RoundUp newsize = RoundUp oldsize then Some (Inr (obj, w))
      else
        (case MemoryPoolAllocator_Deallocate env obj oldsize w of
           Inl e \<Rightarrow> Some (Inl e)
         | Inr w1 \<Rightarrow> MemoryPoolAllocator_Allocate env newsize w1))"

section \<open>AllocatorWrapper\<close>

text \<open>
  \<^verbatim>\<open>AllocatorWrapper<T, Allocator>\<close>: the template parameters are the two static members
  of \<^verbatim>\<open>Allocator\<close> that the wrapper calls and \<^verbatim>\<open>sizeof(T)\<close>. The state \<open>'s\<close> is whatever
  the allocator works on.
\<close>

definition AllocatorWrapper_Allocate ::
  "(size_t \<Rightarrow> 's \<Rightarrow> (addr \<times> 's) outcome) \<Rightarrow> size_t \<Rightarrow> size_t \<Rightarrow> 's \<Rightarrow> (addr \<times> 's) outcome" where
  "AllocatorWrapper_Allocate Allocator_Allocate sizeof_T n s =
     (if n = 0 then Some (Inr (0, s)) else Allocator_Allocate (n * sizeof_T) s)"

definition AllocatorWrapper_Deallocate ::
  "(addr \<Rightarrow> size_t \<Rightarrow> 's \<Rightarrow> error + 's) \<Rightarrow> size_t \<Rightarrow> addr \<Rightarrow> size_t \<Rightarrow> 's \<Rightarrow> error + 's" where
  "AllocatorWrapper_Deallocate Allocator_Deallocate sizeof_T ptr n s =
     (if n \<noteq> 0 then Allocator_Deallocate ptr (n * sizeof_T) s else Inr s)"

declare ChunkAlloc.simps [code]

declare MallocInOom_loop.simps [simp del] scan_freelists.simps [simp del] ReFill_loop.simps [simp del]

section \<open>The claims' vocabulary\<close>

text \<open>
  One round of the out-of-memory protocol as the specification words it: with no handler
  installed the process terminates; otherwise the handler is invoked and the system
  allocation is tried again.
\<close>

definition oom_round :: "'h env \<Rightarrow> size_t \<Rightarrow> 'h world \<Rightarrow> error + (addr \<times> 'h world)" where
  "oom_round env sz w =
     (if CustomerOomHandler w = 0 then Inl Aborted
      else
        (case call_handler env (CustomerOomHandler w) w of
           Inl e \<Rightarrow> Inl e
         | Inr w1 \<Rightarrow>
             (case sys_malloc env sz (sysheap w1) of
                (result, h) \<Rightarrow> Inr (result, w1\<lparr>sysheap := h\<rparr>))))"

text \<open>
  The protocol with \<open>k\<close> retries left: a retry that succeeds returns its block; when no
  retry is left the result is null.
\<close>

fun oom_retries :: "'h env \<Rightarrow> size_t \<Rightarrow> nat \<Rightarrow> 'h world \<Rightarrow> error + (addr \<times> 'h world)" where
  "oom_retries env sz 0 w = Inr (0, w)"
| "oom_retries env sz (Suc k) w =
     (case oom_round env sz w of
        Inl e \<Rightarrow> Inl e
      | Inr (result, w1) \<Rightarrow>
          if result \<noteq> 0 then Inr (result, w1) else oom_retries env sz k w1)"

text \<open>The part of the state that belongs to the pool: free lists, arena bounds, counter, links.\<close>

definition pool_fields ::
  "'h world \<Rightarrow> (nat \<Rightarrow> addr) \<times> addr \<times> addr \<times> size_t \<times> (addr \<Rightarrow> addr)" where
  "pool_fields w = (freelist w, freespacestart w, freespaceend w, mallocoffset w, mem w)"

text \<open>The installed handlers leave the pool's part of the state alone.\<close>

definition handler_keeps_pool :: "'h env \<Rightarrow> bool" where
  "handler_keeps_pool env =
     (\<forall>f w w'. call_handler env f w = Inr w' \<longrightarrow> pool_fields w' = pool_fields w)"

section \<open>The pool's blocks\<close>

text \<open>
  The allocator keeps no record of the blocks it has handed out, nor of the size of a block
  on a free list: the size of a block is the class of the list it is on, or the size its
  client asked for. To state what the blocks are, the state is paired with a record that no
  code reads: the blocks on each free list in order, the blocks the clients hold with the
  size each was requested with, the owner of every byte the pool has obtained, and the
  regions the pool has obtained from the system as arenas.

  A byte of an arena is in one of three conditions: it is in the part of the current arena
  not yet carved (\<open>Arena\<close>), it has just been carved by \<^verbatim>\<open>ChunkAlloc\<close> and is on its way
  to \<^verbatim>\<open>ReFill\<close> (\<open>Carved\<close>), or it belongs to the block that starts at a given address
  (\<open>Block\<close>).
\<close>

datatype owner = Arena | Carved | Block addr

record ghost =
  g_fl :: "nat \<Rightarrow> addr list"
  g_live :: "addr \<rightharpoonup> size_t"
  g_own :: "nat \<Rightarrow> owner option"
  g_arenas :: "(addr \<times> size_t) set"

text \<open>
  The nodes of an intrusive list, read from the links in memory: the list that starts at
  \<open>h\<close> visits exactly \<open>ps\<close> and ends with a null link.
\<close>

fun chain :: "(addr \<Rightarrow> addr) \<Rightarrow> addr \<Rightarrow> addr list \<Rightarrow> bool" where
  "chain m h [] = (h = 0)"
| "chain m h (p # ps) = (h = p \<and> p \<noteq> 0 \<and> chain m (m p) ps)"

text \<open>
  \<open>owns\<close>: every byte of \<open>[a, a + n)\<close> has the owner \<open>ow\<close>. \<open>only_in\<close>: no byte outside
  \<open>[a, a + n)\<close> has the owner \<open>ow\<close>.
\<close>

definition owns :: "ghost \<Rightarrow> owner \<Rightarrow> nat \<Rightarrow> nat \<Rightarrow> bool" where
  "owns G ow a n = (\<forall>x. a \<le> x \<and> x < a + n \<longrightarrow> g_own G x = Some ow)"

definition only_in :: "ghost \<Rightarrow> owner \<Rightarrow> nat \<Rightarrow> nat \<Rightarrow> bool" where
  "only_in G ow a n = (\<forall>x. g_own G x = Some ow \<longrightarrow> a \<le> x \<and> x < a + n)"

text \<open>
  A block of exactly \<open>n\<close> bytes at \<open>p\<close>: not null, aligned to \<^verbatim>\<open>kAlign\<close>, inside the
  address space, and the bytes that belong to it are those of \<open>[p, p + n)\<close>, no fewer and no
  more. So a block has one size, and as a byte has one owner, two blocks never overlap,
  and no block overlaps the part of the arena still to be carved.
\<close>

definition block_ok :: "ghost \<Rightarrow> addr \<Rightarrow> nat \<Rightarrow> bool" where
  "block_ok G p n =
     (p \<noteq> 0 \<and> 8 dvd unat p \<and> unat p + n \<le> 2 ^ 64 \<and>
      owns G (Block p) (unat p) n \<and> only_in G (Block p) (unat p) n)"

text \<open>
  The free lists: the list of class \<open>i\<close> is a null-terminated chain without repetition,
  each of its nodes is a block of exactly \<open>8 * (i + 1)\<close> bytes that no client holds, and is
  on no other list.
\<close>

definition lists_ok :: "ghost \<Rightarrow> 'h world \<Rightarrow> bool" where
  "lists_ok G w =
     (\<forall>i<kFreeListNum.
        chain (mem w) (freelist w i) (g_fl G i) \<and> distinct (g_fl G i) \<and>
        (\<forall>p\<in>set (g_fl G i).
           block_ok G p (8 * (i + 1)) \<and> g_live G p = None \<and>
           (\<forall>j<kFreeListNum. j \<noteq> i \<longrightarrow> p \<notin> set (g_fl G j))))"

text \<open>
  The blocks the clients hold: one requested with a size \<open>s\<close> of at most \<^verbatim>\<open>kMaxBytes\<close> is a
  block of exactly \<open>RoundUp s\<close> bytes; one requested with a larger size is a region of the
  system heap of its own, apart from every arena.
\<close>

definition live_ok :: "('h \<Rightarrow> (addr \<times> size_t) set) \<Rightarrow> ghost \<Rightarrow> 'h world \<Rightarrow> bool" where
  "live_ok regions G w =
     (\<forall>p s. g_live G p = Some s \<longrightarrow>
        0 < s \<and>
        (s \<le> kMaxBytes \<longrightarrow> block_ok G p (unat (RoundUp s))) \<and>
        (kMaxBytes < s \<longrightarrow>
           (p, s) \<in> regions (sysheap w) \<and> p \<notin> fst ` g_arenas G \<and>
           (\<forall>(q, m)\<in>g_arenas G. unat p + unat s \<le> unat q \<or> unat q + unat m \<le> unat p)))"

text \<open>
  The arenas are regions the system heap has handed out and not taken back, and every byte
  with an owner lies in one of them.
\<close>

definition arenas_ok :: "('h \<Rightarrow> (addr \<times> size_t) set) \<Rightarrow> ghost \<Rightarrow> 'h world \<Rightarrow> bool" where
  "arenas_ok regions G w =
     (g_arenas G \<subseteq> regions (sysheap w) \<and>
      (\<forall>x ow. g_own G x = Some ow \<longrightarrow>
         (\<exists>(q, m)\<in>g_arenas G. unat q \<le> x \<and> x < unat q + unat m)))"

text \<open>
  The current arena \<^verbatim>\<open>[freespacestart_, freespaceend_)\<close>: its start and its length are
  multiples of \<^verbatim>\<open>kAlign\<close>, and its bytes are owned by no block.
\<close>

definition arena_ok :: "ghost \<Rightarrow> 'h world \<Rightarrow> bool" where
  "arena_ok G w =
     (let a = freespacestart w; n = unat (freespaceend w - a) in
      8 dvd unat a \<and> 8 dvd n \<and> unat a + n \<le> 2 ^ 64 \<and> (0 < n \<longrightarrow> a \<noteq> 0) \<and>
      owns G Arena (unat a) n)"

text \<open>
  A byte belongs to the block at \<open>q\<close> only if the byte at \<open>q\<close> does: a block is named by
  its first byte.
\<close>

definition tags_ok :: "ghost \<Rightarrow> bool" where
  "tags_ok G = (\<forall>x q. g_own G x = Some (Block q) \<longrightarrow> g_own G (unat q) = Some (Block q))"

text \<open>
  The invariant. \<^verbatim>\<open>ChunkAlloc\<close> breaks its last part for a moment, between the push of
  the arena's remainder and the replacement of the arena; \<open>pool_inv0\<close> is what holds there.
\<close>

definition pool_inv0 :: "('h \<Rightarrow> (addr \<times> size_t) set) \<Rightarrow> ghost \<Rightarrow> 'h world \<Rightarrow> bool" where
  "pool_inv0 regions G w =
     (lists_ok G w \<and> live_ok regions G w \<and> arenas_ok regions G w \<and> tags_ok G)"

definition pool_inv :: "('h \<Rightarrow> (addr \<times> size_t) set) \<Rightarrow> ghost \<Rightarrow> 'h world \<Rightarrow> bool" where
  "pool_inv regions G w = (pool_inv0 regions G w \<and> arena_ok G w)"



definition inside :: "(addr \<times> size_t) set \<Rightarrow> addr \<Rightarrow> bool" where
  "inside H a = (\<exists>(q, m)\<in>H. unat q \<le> unat a \<and> unat a < unat q + unat m)"

definition handler_ok :: "'h env \<Rightarrow> ('h \<Rightarrow> (addr \<times> size_t) set) \<Rightarrow> (addr \<times> size_t) set \<Rightarrow> bool" where
  "handler_ok env regions H =
     (\<forall>f w w'. call_handler env f w = Inr w' \<longrightarrow>
        freelist w' = freelist w \<and> freespacestart w' = freespacestart w \<and>
        freespaceend w' = freespaceend w \<and> mallocoffset w' = mallocoffset w \<and>
        (\<forall>r\<in>H. r \<in> regions (sysheap w) \<longrightarrow> r \<in> regions (sysheap w')) \<and>
        (\<forall>a. inside H a \<longrightarrow> mem w' a = mem w a))"










text \<open>
  What a returning \<^verbatim>\<open>ChunkAlloc(size, chunknums)\<close> has done, with \<open>n\<close> the value of
  \<^verbatim>\<open>chunknums\<close> at the call and \<open>n'\<close> its value at the return: it has carved
  \<open>n' * size\<close> bytes at \<open>chunk\<close>, between one and \<open>n\<close> blocks, off the arena, which now
  starts right after them; the invariant holds, and no client's block has changed.
\<close>

definition chunk_post ::
  "('h \<Rightarrow> (addr \<times> size_t) set) \<Rightarrow> ghost \<Rightarrow> size_t \<Rightarrow> size_t \<Rightarrow> addr \<Rightarrow> size_t \<Rightarrow> 'h world \<Rightarrow> bool" where
  "chunk_post regions G sz n chunk n' w' =
     (1 \<le> unat n' \<and> unat n' \<le> unat n \<and> chunk \<noteq> 0 \<and> 8 dvd unat chunk \<and>
      unat chunk + unat n' * unat sz \<le> 2 ^ 64 \<and>
      freespacestart w' = chunk + n' * sz \<and>
      (\<exists>G'. pool_inv regions G' w' \<and> g_live G' = g_live G \<and>
            owns G' Carved (unat chunk) (unat n' * unat sz)))"






section \<open>A concrete system heap\<close>

text \<open>
  A system heap to run the allocator on: a bump allocator between \<open>brk\<close> and \<open>limit\<close>
  that records the blocks it has handed out and refuses a request it cannot place.
  The handler at address 1 only counts its calls; the handler at address 2 also frees
  4096 bytes; any other handler ends the process.
\<close>

record sysmodel =
  brk :: addr
  limit :: addr
  regs :: "(addr \<times> size_t) list"
  ncalls :: nat

definition demo_malloc :: "size_t \<Rightarrow> sysmodel \<Rightarrow> addr \<times> sysmodel" where
  "demo_malloc n h =
     (let p = brk h in
      if p \<noteq> 0 \<and> unat p mod 8 = 0 \<and> unat p + unat n \<le> unat (limit h) \<and>
         p \<notin> fst ` set (regs h) \<and>
         (\<forall>(q, m) \<in> set (regs h). unat p + unat n \<le> unat q \<or> unat q + unat m \<le> unat p)
      then (p, h\<lparr>brk := p + ((n + 15) AND NOT 15), regs := (p, n) # regs h\<rparr>)
      else (0, h))"

definition demo_free :: "addr \<Rightarrow> sysmodel \<Rightarrow> sysmodel" where
  "demo_free p h = h\<lparr>regs := filter (\<lambda>r. fst r \<noteq> p) (regs h)\<rparr>"

definition demo_handler :: "addr \<Rightarrow> sysmodel world \<Rightarrow> error + sysmodel world" where
  "demo_handler f w =
     (if f = 1 then Inr (w\<lparr>sysheap := (sysheap w)\<lparr>ncalls := ncalls (sysheap w) + 1\<rparr>\<rparr>)
      else if f = 2 then
        Inr (w\<lparr>sysheap := (sysheap w)\<lparr>limit := limit (sysheap w) + 4096,
                                       ncalls := ncalls (sysheap w) + 1\<rparr>\<rparr>)
      else Inl Aborted)"

definition demo_env :: "sysmodel env" where
  "demo_env = \<lparr>sys_malloc = demo_malloc, sys_free = demo_free, call_handler = demo_handler\<rparr>"

definition demo_world :: "addr \<Rightarrow> addr \<Rightarrow> addr \<Rightarrow> sysmodel world" where
  "demo_world handler b l =
     \<lparr>freelist = (\<lambda>i. 0), freespacestart = 0, freespaceend = 0, mallocoffset = 0,
      CustomerOomHandler = handler, mem = (\<lambda>a. 0),
      sysheap = \<lparr>brk = b, limit = l, regs = [], ncalls = 0\<rparr>\<rparr>"

text \<open>
  A state with no memory left in the system, an empty arena, and one free block (at 8192)
  in the class of 16 bytes.
\<close>

definition scavenge_world :: "addr \<Rightarrow> sysmodel world" where
  "scavenge_world handler = (demo_world handler 4096 4096)\<lparr>freelist := (\<lambda>i. 0)(1 := 8192)\<rparr>"

text \<open>
  The regions the concrete system heap has handed out and not taken back.
\<close>

definition demo_regions :: "sysmodel \<Rightarrow> (addr \<times> size_t) set" where
  "demo_regions h = set (regs h)"




section \<open>Evaluation\<close>

lemmas demo_defs = demo_env_def demo_world_def demo_malloc_def demo_free_def demo_handler_def

lemmas pool_defs = MemoryPoolAllocator_Allocate_def MemoryPoolAllocator_Deallocate_def
  kMaxBytes_def GetFreelistIndex_def kAlign_def in_bounds_def kFreeListNum_def Empty_def
  ReFill_def RoundUp_def salvage_def new_arena_def ptr_add_def Push_def Pop_def
  ReFill_loop.simps scan_freelists.simps

section \<open>RoundUp and GetFreelistIndex\<close>

lemma RoundUp_alt: "RoundUp s = (s + 7) AND NOT 7"
  by (simp add: RoundUp_def kAlign_def add.commute)

lemma RoundUp_low_bits: "RoundUp s AND 7 = 0"
  by (simp add: RoundUp_alt and.assoc)

lemma RoundUp_idem: "RoundUp (RoundUp s) = RoundUp s"
proof -
  define x where "x = RoundUp s"
  have low: "x AND 7 = 0"
    unfolding x_def by (rule RoundUp_low_bits)
  have "(x AND 7) + (x OR 7) = x + 7"
    by (rule word_plus_and_or)
  then have "x + 7 = x OR 7"
    by (simp add: low)
  then have "RoundUp x = (x OR 7) AND NOT 7"
    by (simp only: RoundUp_alt)
  also have "\<dots> = x AND NOT 7"
    by (simp add: word_ao_dist)
  also have "\<dots> = x"
    unfolding x_def by (simp add: RoundUp_alt and.assoc)
  finally show ?thesis
    unfolding x_def .
qed

lemma GetFreelistIndex_0: "GetFreelistIndex 0 = - 1"
  by (simp add: GetFreelistIndex_def kAlign_def)

text \<open>
  Claim C7. \<^verbatim>\<open>RoundUp\<close> is idempotent on every \<^verbatim>\<open>size_t\<close> value, also where the addition
  wraps around: \<open>RoundUp (RoundUp s) = RoundUp s\<close>, with \<open>RoundUp s = (s + 7) & ~7\<close>.
\<close>

theorem RoundUp_idempotent:
  "RoundUp (RoundUp s) = RoundUp s \<and> RoundUp s = (s + 7) AND NOT 7"
  using RoundUp_idem [of s] RoundUp_alt [of s] by (rule conjI)

text \<open>
  Claim C9. \<^verbatim>\<open>MemoryPoolAllocator::Allocate(0)\<close> takes the small-object path (0 is not
  greater than the ceiling), the free-list index \<open>(0 + 7) / 8 - 1\<close> wraps around to
  \<open>2^64 - 1\<close>, and the access to the 16-entry array \<^verbatim>\<open>freelist_\<close> is out of bounds: with
  checked indexing the call ends in the out-of-bounds branch.
\<close>

theorem Allocate_zero_is_out_of_bounds:
  "\<not> (0 :: size_t) > kMaxBytes \<and>
   unat (GetFreelistIndex 0) = 2 ^ 64 - 1 \<and>
   \<not> in_bounds (GetFreelistIndex 0) \<and>
   MemoryPoolAllocator_Allocate env 0 w = Some (Inl IndexOutOfBounds)"
  by (simp add: MemoryPoolAllocator_Allocate_def GetFreelistIndex_0 kMaxBytes_def in_bounds_def
      kFreeListNum_def unsigned_minus_1_eq_mask mask_eq_exp_minus_1)

section \<open>AllocatorWrapper\<close>




text \<open>
  Claim C10. For every element type and every pointer (null included),
  \<^verbatim>\<open>AllocatorWrapper<T>::Deallocate(ptr, 0)\<close> is a no-op: whatever the underlying \<^verbatim>\<open>Deallocate\<close>
  is, it is not invoked and the whole state is unchanged, so
  \<^verbatim>\<open>Deallocate(Allocate(0), 0)\<close> always succeeds and leaves the state as it was.
\<close>

theorem AllocatorWrapper_Deallocate_zero_is_noop:
  "AllocatorWrapper_Deallocate Allocator_Deallocate sizeof_T ptr 0 s = Inr s \<and>
   (case AllocatorWrapper_Allocate Allocator_Allocate sizeof_T 0 s of
      Some (Inr (p, s')) \<Rightarrow> AllocatorWrapper_Deallocate Allocator_Deallocate sizeof_T p 0 s' = Inr s
    | _ \<Rightarrow> False)"
  by (simp add: AllocatorWrapper_Deallocate_def AllocatorWrapper_Allocate_def)

section \<open>MallocAllocator: the out-of-memory protocol\<close>

lemma MallocInOom_loop_retries:
  "retry_count \<le> max_retries \<Longrightarrow>
   MallocInOom_loop env sz retry_count w = oom_retries env sz (max_retries - retry_count) w"
proof (induction env sz retry_count w rule: MallocInOom_loop.induct)
  case (1 env sz retry_count w)
  show ?case
  proof (cases "retry_count < max_retries")
    case False
    with "1.prems" have "max_retries - retry_count = 0" by simp
    with False show ?thesis by (simp add: MallocInOom_loop.simps [of env sz retry_count w])
  next
    case True
    then obtain k where k: "max_retries - retry_count = Suc k"
      by (metis Suc_diff_Suc)
    then have k': "max_retries - (retry_count + 1) = k" by simp
    show ?thesis
    proof (cases "CustomerOomHandler w = 0")
      case True
      with \<open>retry_count < max_retries\<close> k show ?thesis
        by (simp add: MallocInOom_loop.simps [of env sz retry_count w] oom_round_def)
    next
      case False
      note nz = this
      show ?thesis
      proof (cases "call_handler env (CustomerOomHandler w) w")
        case (Inl e)
        with nz \<open>retry_count < max_retries\<close> k show ?thesis
          by (simp add: MallocInOom_loop.simps [of env sz retry_count w] oom_round_def)
      next
        case (Inr w1)
        obtain result h where m: "sys_malloc env sz (sysheap w1) = (result, h)"
          by (cases "sys_malloc env sz (sysheap w1)")
        show ?thesis
        proof (cases "result = 0")
          case False
          with nz Inr m \<open>retry_count < max_retries\<close> k show ?thesis
            by (simp add: MallocInOom_loop.simps [of env sz retry_count w] oom_round_def)
        next
          case True
          have "MallocInOom_loop env sz (retry_count + 1) (w1\<lparr>sysheap := h\<rparr>) =
                oom_retries env sz (max_retries - (retry_count + 1)) (w1\<lparr>sysheap := h\<rparr>)"
            using "1.IH" [of "CustomerOomHandler w" w1 result h] True nz Inr m
              \<open>retry_count < max_retries\<close>
            by simp
          with nz Inr m True \<open>retry_count < max_retries\<close> k k' show ?thesis
            by (simp add: MallocInOom_loop.simps [of env sz retry_count w] oom_round_def)
        qed
      qed
    qed
  qed
qed

lemma MallocInOom_retries: "MallocInOom env sz w = oom_retries env sz 3 w"
  using MallocInOom_loop_retries [of 0 env sz w]
  by (simp add: MallocInOom_def max_retries_def)

lemma oom_retries_3:
  "oom_round env sz w0 = Inr (0, w1) \<Longrightarrow> oom_round env sz w1 = Inr (0, w2) \<Longrightarrow>
   oom_round env sz w2 = Inr (r, w3) \<Longrightarrow> oom_retries env sz 3 w0 = Inr (r, w3)"
  by (simp add: numeral_3_eq_3)

text \<open>
  Claim C3. \<^verbatim>\<open>MallocAllocator::Allocate(size)\<close> first attempts the system allocation and
  returns its result when that is not null. When it is null, the call is the retry
  protocol with 3 retries: with no handler installed the process terminates; with a
  handler installed the handler is invoked and the system allocation tried again; and
  when three such rounds have all failed the call returns null, it does not abort.
\<close>

theorem MallocAllocator_Allocate_oom_protocol:
  assumes "sys_malloc env sz (sysheap w) = (result, h)"
  shows "(result \<noteq> 0 \<longrightarrow> MallocAllocator_Allocate env sz w = Inr (result, w\<lparr>sysheap := h\<rparr>)) \<and>
         (result = 0 \<longrightarrow>
            MallocAllocator_Allocate env sz w = oom_retries env sz 3 (w\<lparr>sysheap := h\<rparr>)) \<and>
         (result = 0 \<and> CustomerOomHandler w = 0 \<longrightarrow>
            MallocAllocator_Allocate env sz w = Inl Aborted) \<and>
         (\<forall>w1 w2 w3.
            result = 0 \<and> oom_round env sz (w\<lparr>sysheap := h\<rparr>) = Inr (0, w1) \<and>
            oom_round env sz w1 = Inr (0, w2) \<and> oom_round env sz w2 = Inr (0, w3) \<longrightarrow>
              MallocAllocator_Allocate env sz w = Inr (0, w3))"
proof (intro conjI impI allI)
  assume "result \<noteq> 0"
  with assms show "MallocAllocator_Allocate env sz w = Inr (result, w\<lparr>sysheap := h\<rparr>)"
    by (simp add: MallocAllocator_Allocate_def)
next
  assume "result = 0"
  with assms show "MallocAllocator_Allocate env sz w = oom_retries env sz 3 (w\<lparr>sysheap := h\<rparr>)"
    by (simp add: MallocAllocator_Allocate_def MallocInOom_retries)
next
  assume "result = 0 \<and> CustomerOomHandler w = 0"
  with assms show "MallocAllocator_Allocate env sz w = Inl Aborted"
    by (simp add: MallocAllocator_Allocate_def MallocInOom_retries numeral_3_eq_3 oom_round_def)
next
  fix w1 w2 w3
  assume a: "result = 0 \<and> oom_round env sz (w\<lparr>sysheap := h\<rparr>) = Inr (0, w1) \<and>
          oom_round env sz w1 = Inr (0, w2) \<and> oom_round env sz w2 = Inr (0, w3)"
  then have "oom_retries env sz 3 (w\<lparr>sysheap := h\<rparr>) = Inr (0, w3)"
    by (intro oom_retries_3) auto
  with assms a show "MallocAllocator_Allocate env sz w = Inr (0, w3)"
    by (simp add: MallocAllocator_Allocate_def MallocInOom_retries)
qed

theorem MallocAllocator_Allocate_oom_protocol_witness:
  "sys_malloc demo_env 8 (sysheap (demo_world 0 4096 8192)) =
     (4096, \<lparr>brk = 4112, limit = 8192, regs = [(4096, 8)], ncalls = 0\<rparr>) \<and>
   MallocAllocator_Allocate demo_env 8 (demo_world 0 4096 8192) =
     Inr (4096, (demo_world 0 4096 8192)
            \<lparr>sysheap := \<lparr>brk = 4112, limit = 8192, regs = [(4096, 8)], ncalls = 0\<rparr>\<rparr>) \<and>
   sys_malloc demo_env 8 (sysheap (demo_world 0 4096 4096)) = (0, sysheap (demo_world 0 4096 4096)) \<and>
   CustomerOomHandler (demo_world 0 4096 4096) = 0 \<and>
   MallocAllocator_Allocate demo_env 8 (demo_world 0 4096 4096) = Inl Aborted \<and>
   sys_malloc demo_env 8 (sysheap (demo_world 1 4096 4096)) = (0, sysheap (demo_world 1 4096 4096)) \<and>
   oom_round demo_env 8 (demo_world 1 4096 4096) =
     Inr (0, (demo_world 1 4096 4096)
            \<lparr>sysheap := \<lparr>brk = 4096, limit = 4096, regs = [], ncalls = 1\<rparr>\<rparr>) \<and>
   oom_round demo_env 8
       ((demo_world 1 4096 4096)\<lparr>sysheap := \<lparr>brk = 4096, limit = 4096, regs = [], ncalls = 1\<rparr>\<rparr>) =
     Inr (0, (demo_world 1 4096 4096)
            \<lparr>sysheap := \<lparr>brk = 4096, limit = 4096, regs = [], ncalls = 2\<rparr>\<rparr>) \<and>
   oom_round demo_env 8
       ((demo_world 1 4096 4096)\<lparr>sysheap := \<lparr>brk = 4096, limit = 4096, regs = [], ncalls = 2\<rparr>\<rparr>) =
     Inr (0, (demo_world 1 4096 4096)
            \<lparr>sysheap := \<lparr>brk = 4096, limit = 4096, regs = [], ncalls = 3\<rparr>\<rparr>) \<and>
   MallocAllocator_Allocate demo_env 8 (demo_world 1 4096 4096) =
     Inr (0, (demo_world 1 4096 4096)
            \<lparr>sysheap := \<lparr>brk = 4096, limit = 4096, regs = [], ncalls = 3\<rparr>\<rparr>)"
proof -
  let ?w = "demo_world 1 4096 4096"
  let ?h = "\<lambda>k. \<lparr>brk = 4096, limit = 4096, regs = [], ncalls = k\<rparr>"
  have m1: "sys_malloc demo_env 8 (sysheap (demo_world 0 4096 8192)) =
     (4096, \<lparr>brk = 4112, limit = 8192, regs = [(4096, 8)], ncalls = 0\<rparr>)"
    by (simp add: demo_defs)
  have m2: "sys_malloc demo_env 8 (sysheap (demo_world 0 4096 4096)) =
     (0, sysheap (demo_world 0 4096 4096))"
    by (simp add: demo_defs)
  have m3: "sys_malloc demo_env 8 (sysheap ?w) = (0, sysheap ?w)"
    by (simp add: demo_defs)
  have h2: "CustomerOomHandler (demo_world 0 4096 4096) = 0"
    by (simp add: demo_defs)
  have r1: "oom_round demo_env 8 (?w\<lparr>sysheap := sysheap ?w\<rparr>) = Inr (0, ?w\<lparr>sysheap := ?h 1\<rparr>)"
    by (simp add: oom_round_def demo_defs)
  have r2: "oom_round demo_env 8 (?w\<lparr>sysheap := ?h 1\<rparr>) = Inr (0, ?w\<lparr>sysheap := ?h 2\<rparr>)"
    by (simp add: oom_round_def demo_defs)
  have r3: "oom_round demo_env 8 (?w\<lparr>sysheap := ?h 2\<rparr>) = Inr (0, ?w\<lparr>sysheap := ?h 3\<rparr>)"
    by (simp add: oom_round_def demo_defs)
  from MallocAllocator_Allocate_oom_protocol [OF m1, THEN conjunct1]
  have a1: "MallocAllocator_Allocate demo_env 8 (demo_world 0 4096 8192) =
     Inr (4096, (demo_world 0 4096 8192)
            \<lparr>sysheap := \<lparr>brk = 4112, limit = 8192, regs = [(4096, 8)], ncalls = 0\<rparr>\<rparr>)"
    by simp
  from MallocAllocator_Allocate_oom_protocol
    [OF m2, THEN conjunct2, THEN conjunct2, THEN conjunct1] h2
  have a2: "MallocAllocator_Allocate demo_env 8 (demo_world 0 4096 4096) = Inl Aborted"
    by simp
  from MallocAllocator_Allocate_oom_protocol
    [OF m3, THEN conjunct2, THEN conjunct2, THEN conjunct2, THEN spec, THEN spec, THEN spec,
      of "?w\<lparr>sysheap := ?h 1\<rparr>" "?w\<lparr>sysheap := ?h 2\<rparr>" "?w\<lparr>sysheap := ?h 3\<rparr>"]
    r1 r2 r3
  have a3: "MallocAllocator_Allocate demo_env 8 ?w = Inr (0, ?w\<lparr>sysheap := ?h 3\<rparr>)"
    by simp
  have r1': "oom_round demo_env 8 ?w = Inr (0, ?w\<lparr>sysheap := ?h 1\<rparr>)"
    using r1 by (simp add: demo_world_def)
  from m1 a1 m2 h2 a2 m3 r1' r2 r3 a3 show ?thesis
    by (intro conjI)
qed

section \<open>MemoryPoolAllocator: routing, reuse, reallocation\<close>

lemma oom_retries_keeps_pool:
  "handler_keeps_pool env \<Longrightarrow> oom_retries env sz k w = Inr (p, w') \<Longrightarrow>
   pool_fields w' = pool_fields w"
proof (induction k arbitrary: w)
  case 0
  then show ?case by simp
next
  case (Suc k)
  from Suc.prems(2) obtain r w1 where r: "oom_round env sz w = Inr (r, w1)"
    and rest: "(if r \<noteq> 0 then Inr (r, w1) else oom_retries env sz k w1) = Inr (p, w')"
    by (auto split: sum.splits)
  from r Suc.prems(1) have w1: "pool_fields w1 = pool_fields w"
    by (auto simp: oom_round_def handler_keeps_pool_def pool_fields_def
        split: if_splits sum.splits prod.splits)
  show ?case
  proof (cases "r = 0")
    case True
    with rest have "oom_retries env sz k w1 = Inr (p, w')" by simp
    with Suc.IH [OF Suc.prems(1)] w1 show ?thesis by simp
  next
    case False
    with rest w1 show ?thesis by simp
  qed
qed

lemma MallocAllocator_Allocate_keeps_pool:
  assumes "handler_keeps_pool env" and "MallocAllocator_Allocate env sz w = Inr (p, w')"
  shows "pool_fields w' = pool_fields w"
proof -
  obtain result h where m: "sys_malloc env sz (sysheap w) = (result, h)"
    by (cases "sys_malloc env sz (sysheap w)")
  show ?thesis
  proof (cases "result = 0")
    case True
    with m assms(2) have "oom_retries env sz 3 (w\<lparr>sysheap := h\<rparr>) = Inr (p, w')"
      by (simp add: MallocAllocator_Allocate_def MallocInOom_retries)
    from oom_retries_keeps_pool [OF assms(1) this] show ?thesis
      by (simp add: pool_fields_def)
  next
    case False
    with m assms(2) show ?thesis
      by (auto simp: MallocAllocator_Allocate_def pool_fields_def)
  qed
qed

text \<open>
  Claim C4. For every size above the ceiling of 128 bytes,
  \<^verbatim>\<open>MemoryPoolAllocator::Allocate\<close> is the call of \<^verbatim>\<open>MallocAllocator::Allocate\<close> and nothing
  else: unless a handler run by \<^verbatim>\<open>MallocAllocator\<close> changes them itself, the free lists, the
  arena bounds, the counter and the links are the ones before the call, so the block is
  not served from the pool. \<^verbatim>\<open>MemoryPoolAllocator::Deallocate\<close> with such a size is the call
  of the system's \<^verbatim>\<open>free\<close>: it cannot fail, and it neither reads nor changes a free list
  or the arena bounds.
\<close>

theorem large_requests_go_to_MallocAllocator:
  assumes "sz > kMaxBytes"
  shows "MemoryPoolAllocator_Allocate env sz w = Some (MallocAllocator_Allocate env sz w) \<and>
         (handler_keeps_pool env \<longrightarrow>
            (\<forall>p w'. MemoryPoolAllocator_Allocate env sz w = Some (Inr (p, w')) \<longrightarrow>
               pool_fields w' = pool_fields w)) \<and>
         MemoryPoolAllocator_Deallocate env ptr sz w =
           Inr (w\<lparr>sysheap := sys_free env ptr (sysheap w)\<rparr>)"
  using assms
  by (auto simp: MemoryPoolAllocator_Allocate_def MemoryPoolAllocator_Deallocate_def
      MallocAllocator_Deallocate_def dest: MallocAllocator_Allocate_keeps_pool)

lemma demo_handler_keeps_pool: "handler_keeps_pool demo_env"
  by (auto simp: handler_keeps_pool_def demo_env_def demo_handler_def pool_fields_def
      split: if_splits)

theorem large_requests_go_to_MallocAllocator_witness:
  "(200 :: size_t) > kMaxBytes \<and> handler_keeps_pool demo_env \<and>
   (\<exists>w'. MemoryPoolAllocator_Allocate demo_env 200 (demo_world 0 4096 8192) =
           Some (Inr (4096, w')) \<and>
         pool_fields w' = pool_fields (demo_world 0 4096 8192) \<and>
         MemoryPoolAllocator_Deallocate demo_env 4096 200 w' =
           Inr (w'\<lparr>sysheap := \<lparr>brk = 4304, limit = 8192, regs = [], ncalls = 0\<rparr>\<rparr>))"
proof -
  let ?w = "demo_world 0 4096 8192"
  have big: "(200 :: size_t) > kMaxBytes"
    by (simp add: kMaxBytes_def)
  note T = large_requests_go_to_MallocAllocator [OF big, of demo_env]
  have "MallocAllocator_Allocate demo_env 200 ?w =
     Inr (4096, ?w\<lparr>sysheap := \<lparr>brk = 4304, limit = 8192, regs = [(4096, 200)], ncalls = 0\<rparr>\<rparr>)"
    by (simp add: MallocAllocator_Allocate_def demo_defs)
  with T [of ?w] have a: "MemoryPoolAllocator_Allocate demo_env 200 ?w =
     Some (Inr (4096, ?w\<lparr>sysheap := \<lparr>brk = 4304, limit = 8192, regs = [(4096, 200)], ncalls = 0\<rparr>\<rparr>))"
    by simp
  with T [of ?w] demo_handler_keeps_pool
  have b: "pool_fields (?w\<lparr>sysheap := \<lparr>brk = 4304, limit = 8192, regs = [(4096, 200)], ncalls = 0\<rparr>\<rparr>)
     = pool_fields ?w"
    by blast
  from T [of "?w\<lparr>sysheap := \<lparr>brk = 4304, limit = 8192, regs = [(4096, 200)], ncalls = 0\<rparr>\<rparr>" 4096]
  have c: "MemoryPoolAllocator_Deallocate demo_env 4096 200
      (?w\<lparr>sysheap := \<lparr>brk = 4304, limit = 8192, regs = [(4096, 200)], ncalls = 0\<rparr>\<rparr>) =
     Inr (?w\<lparr>sysheap := \<lparr>brk = 4304, limit = 8192, regs = [], ncalls = 0\<rparr>\<rparr>)"
    by (simp add: demo_defs)
  from big demo_handler_keeps_pool a b c show ?thesis
    by simp
qed

lemma Push_then_Pop:
  "Push i p w = Inr w' \<Longrightarrow> Pop i w' = Inr (p, w'\<lparr>freelist := freelist w\<rparr>)"
  by (auto simp: Push_def Pop_def Let_def split: if_splits)

lemma demo_first_Allocate:
  "\<exists>w. MemoryPoolAllocator_Allocate demo_env 8 (demo_world 0 4096 8192) = Some (Inr (4096, w)) \<and>
       freelist w 0 = 4248 \<and> mem w 4248 = 4240 \<and> freelist w 1 = 0 \<and>
       freespacestart w = 4256 \<and> freespaceend w = 4416 \<and> mem w 4096 = 0 \<and> mem w 4256 = 0"
  by (simp add: pool_defs ChunkAlloc.simps demo_defs)

text \<open>
  Claim C5. Free-list reuse is LIFO. For sizes in \<open>(0, 128]\<close> that map to the same size
  class: when \<^verbatim>\<open>Allocate\<close> has returned \<open>p1\<close> and then \<open>p2\<close>, and the caller has
  deallocated \<open>p1\<close> and then \<open>p2\<close>, the next \<^verbatim>\<open>Allocate\<close> of a size of that class returns
  \<open>p2\<close>, the address freed last.
\<close>

theorem freelist_reuse_is_LIFO:
  assumes sizes: "0 < s1" "s1 \<le> kMaxBytes" "0 < s2" "s2 \<le> kMaxBytes" "0 < s3" "s3 \<le> kMaxBytes"
    and same: "GetFreelistIndex s2 = GetFreelistIndex s1" "GetFreelistIndex s3 = GetFreelistIndex s1"
    and a1: "MemoryPoolAllocator_Allocate env s1 w0 = Some (Inr (p1, w1))"
    and a2: "MemoryPoolAllocator_Allocate env s2 w1 = Some (Inr (p2, w2))"
    and d1: "MemoryPoolAllocator_Deallocate env p1 s1 w2 = Inr w3"
    and d2: "MemoryPoolAllocator_Deallocate env p2 s2 w3 = Inr w4"
  shows "\<exists>w5. MemoryPoolAllocator_Allocate env s3 w4 = Some (Inr (p2, w5))"
proof -
  let ?i = "unat (GetFreelistIndex s1)"
  from d2 sizes same have push: "Push ?i p2 w3 = Inr w4" and inb: "in_bounds (GetFreelistIndex s1)"
    by (auto simp: MemoryPoolAllocator_Deallocate_def split: if_splits)
  from push have "p2 \<noteq> 0" and "freelist w4 ?i = p2"
    by (auto simp: Push_def split: if_splits)
  then have "\<not> Empty ?i w4"
    by (simp add: Empty_def)
  moreover from sizes have "\<not> s3 > kMaxBytes"
    by (simp add: not_less)
  ultimately show ?thesis
    using inb same Push_then_Pop [OF push]
    by (simp add: MemoryPoolAllocator_Allocate_def)
qed

theorem freelist_reuse_is_LIFO_witness:
  "(0 :: size_t) < 8 \<and> (8 :: size_t) \<le> kMaxBytes \<and> (0 :: size_t) < 5 \<and> (5 :: size_t) \<le> kMaxBytes \<and>
   (0 :: size_t) < 3 \<and> (3 :: size_t) \<le> kMaxBytes \<and>
   GetFreelistIndex 5 = GetFreelistIndex 8 \<and> GetFreelistIndex 3 = GetFreelistIndex 8 \<and>
   (\<exists>w1 w2 w3 w4 w5.
      MemoryPoolAllocator_Allocate demo_env 8 (demo_world 0 4096 8192) = Some (Inr (4096, w1)) \<and>
      MemoryPoolAllocator_Allocate demo_env 5 w1 = Some (Inr (4248, w2)) \<and>
      MemoryPoolAllocator_Deallocate demo_env 4096 8 w2 = Inr w3 \<and>
      MemoryPoolAllocator_Deallocate demo_env 4248 5 w3 = Inr w4 \<and>
      MemoryPoolAllocator_Allocate demo_env 3 w4 = Some (Inr (4248, w5)))"
proof -
  have s: "(0 :: size_t) < 8" "(8 :: size_t) \<le> kMaxBytes" "(0 :: size_t) < 5"
    "(5 :: size_t) \<le> kMaxBytes" "(0 :: size_t) < 3" "(3 :: size_t) \<le> kMaxBytes"
    by (simp_all add: kMaxBytes_def)
  have i: "GetFreelistIndex 5 = GetFreelistIndex 8" "GetFreelistIndex 3 = GetFreelistIndex 8"
    by (simp_all add: GetFreelistIndex_def kAlign_def)
  from demo_first_Allocate obtain w1 where
    a1: "MemoryPoolAllocator_Allocate demo_env 8 (demo_world 0 4096 8192) = Some (Inr (4096, w1))"
    and w1: "freelist w1 0 = 4248" "mem w1 4248 = 4240"
    by blast
  define w2 where "w2 = w1\<lparr>freelist := (freelist w1)(0 := 4240)\<rparr>"
  define w3 where "w3 = w2\<lparr>mem := (mem w2)(4096 := 4240), freelist := (freelist w2)(0 := 4096)\<rparr>"
  define w4 where "w4 = w3\<lparr>mem := (mem w3)(4248 := 4096), freelist := (freelist w3)(0 := 4248)\<rparr>"
  have a2: "MemoryPoolAllocator_Allocate demo_env 5 w1 = Some (Inr (4248, w2))"
    using w1 by (simp add: pool_defs w2_def)
  have d1: "MemoryPoolAllocator_Deallocate demo_env 4096 8 w2 = Inr w3"
    by (simp add: pool_defs w3_def w2_def)
  have d2: "MemoryPoolAllocator_Deallocate demo_env 4248 5 w3 = Inr w4"
    by (simp add: pool_defs w4_def w3_def)
  from freelist_reuse_is_LIFO [OF s i a1 a2 d1 d2] obtain w5 where
    "MemoryPoolAllocator_Allocate demo_env 3 w4 = Some (Inr (4248, w5))"
    by blast
  with s i a1 a2 d1 d2 show ?thesis
    by blast
qed

text \<open>
  Claim C6. \<^verbatim>\<open>MemoryPoolAllocator::Reallocate(obj, oldsize, newsize)\<close>: when both sizes round
  up to the same boundary the call returns \<open>obj\<close> and the whole state (free lists, arena
  bounds, counter, memory) is unchanged; otherwise the call is \<^verbatim>\<open>Deallocate(obj, oldsize)\<close>
  followed by \<^verbatim>\<open>Allocate(newsize)\<close>, whose pointer it returns. Nothing is copied.
\<close>

theorem Reallocate_same_class_is_noop:
  "(RoundUp newsize = RoundUp oldsize \<longrightarrow>
      MemoryPoolAllocator_Reallocate env obj oldsize newsize w = Some (Inr (obj, w))) \<and>
   (RoundUp newsize \<noteq> RoundUp oldsize \<longrightarrow>
      MemoryPoolAllocator_Reallocate env obj oldsize newsize w =
        (case MemoryPoolAllocator_Deallocate env obj oldsize w of
           Inl e \<Rightarrow> Some (Inl e)
         | Inr w1 \<Rightarrow> MemoryPoolAllocator_Allocate env newsize w1))"
  by (simp add: MemoryPoolAllocator_Reallocate_def)

theorem Reallocate_same_class_is_noop_witness:
  "RoundUp 5 = RoundUp 8 \<and> RoundUp 16 \<noteq> RoundUp 8 \<and>
   (\<exists>w1. MemoryPoolAllocator_Allocate demo_env 8 (demo_world 0 4096 8192) = Some (Inr (4096, w1)) \<and>
      MemoryPoolAllocator_Reallocate demo_env 4096 8 5 w1 = Some (Inr (4096, w1)) \<and>
      (\<exists>w2. MemoryPoolAllocator_Reallocate demo_env 4096 8 16 (w1\<lparr>mem := (mem w1)(4096 := 171)\<rparr>) =
              Some (Inr (4256, w2)) \<and>
            mem w2 4256 \<noteq> 171 \<and> mem w2 4096 \<noteq> 171))"
proof -
  have r: "RoundUp 5 = RoundUp 8" "RoundUp 16 \<noteq> RoundUp 8"
    by (simp_all add: RoundUp_alt)
  from demo_first_Allocate obtain w1 where
    a1: "MemoryPoolAllocator_Allocate demo_env 8 (demo_world 0 4096 8192) = Some (Inr (4096, w1))"
    and w1: "freelist w1 0 = 4248" "freelist w1 1 = 0" "freespacestart w1 = 4256"
      "freespaceend w1 = 4416" "mem w1 4256 = 0"
    by blast
  let ?w = "w1\<lparr>mem := (mem w1)(4096 := 171)\<rparr>"
  from Reallocate_same_class_is_noop [of 5 8 demo_env 4096 w1] r
  have same: "MemoryPoolAllocator_Reallocate demo_env 4096 8 5 w1 = Some (Inr (4096, w1))"
    by simp
  have d: "MemoryPoolAllocator_Deallocate demo_env 4096 8 ?w =
      Inr (?w\<lparr>mem := (mem ?w)(4096 := 4248), freelist := (freelist ?w)(0 := 4096)\<rparr>)"
    using w1 by (simp add: pool_defs)
  have "\<exists>w2. MemoryPoolAllocator_Allocate demo_env 16
        (?w\<lparr>mem := (mem ?w)(4096 := 4248), freelist := (freelist ?w)(0 := 4096)\<rparr>) =
          Some (Inr (4256, w2)) \<and> mem w2 4256 \<noteq> 171 \<and> mem w2 4096 \<noteq> 171"
    using w1 by (simp add: pool_defs ChunkAlloc.simps)
  with Reallocate_same_class_is_noop [of 16 8 demo_env 4096 ?w] r d
  have "\<exists>w2. MemoryPoolAllocator_Reallocate demo_env 4096 8 16 ?w = Some (Inr (4256, w2)) \<and>
      mem w2 4256 \<noteq> 171 \<and> mem w2 4096 \<noteq> 171"
    by simp
  with r a1 same show ?thesis
    by blast
qed

section \<open>ChunkAlloc: the order of escalation\<close>

lemma scan_freelists_Some:
  "scan_freelists i w = Inr (Some j) \<Longrightarrow>
     i \<le> j \<and> j \<le> kMaxBytes \<and> in_bounds (GetFreelistIndex j) \<and>
     \<not> Empty (unat (GetFreelistIndex j)) w \<and>
     (\<forall>k. unat i + 8 * k < unat j \<longrightarrow>
        Empty (unat (GetFreelistIndex (i + 8 * of_nat k))) w)"
proof (induction i w rule: scan_freelists.induct)
  case (1 i w)
  from "1.prems" have le: "i \<le> kMaxBytes"
    by (simp add: scan_freelists.simps [of i w] split: if_splits)
  from "1.prems" le have inb: "in_bounds (GetFreelistIndex i)"
    by (simp add: scan_freelists.simps [of i w] split: if_splits)
  from le have ui: "unat i \<le> 128"
    by (simp add: kMaxBytes_def word_le_nat_alt)
  then have u8: "unat (i + kAlign) = unat i + 8"
    by (simp add: kAlign_def unat_word_ariths)
  show ?case
  proof (cases "Empty (unat (GetFreelistIndex i)) w")
    case False
    with "1.prems" le inb have "j = i"
      by (simp add: scan_freelists.simps [of i w])
    with le inb False show ?thesis by simp
  next
    case True
    with "1.prems" le inb have rec: "scan_freelists (i + kAlign) w = Inr (Some j)"
      by (simp add: scan_freelists.simps [of i w])
    from "1.IH" [OF le _ _ rec] inb True
    have IH: "i + kAlign \<le> j" "j \<le> kMaxBytes" "in_bounds (GetFreelistIndex j)"
      "\<not> Empty (unat (GetFreelistIndex j)) w"
      "\<And>k. unat (i + kAlign) + 8 * k < unat j \<Longrightarrow>
        Empty (unat (GetFreelistIndex (i + kAlign + 8 * of_nat k))) w"
      by auto
    from IH(1) u8 have "i \<le> j"
      by (simp add: word_le_nat_alt)
    moreover have "Empty (unat (GetFreelistIndex (i + 8 * of_nat k))) w"
      if k: "unat i + 8 * k < unat j" for k
    proof (cases k)
      case 0
      with True show ?thesis by simp
    next
      case (Suc k')
      with k u8 have "unat (i + kAlign) + 8 * k' < unat j" by simp
      from IH(5) [OF this] Suc show ?thesis
        by (simp add: kAlign_def algebra_simps)
    qed
    ultimately show ?thesis
      using IH(2-4) by blast
  qed
qed

lemma scan_freelists_None:
  "scan_freelists i w = Inr None \<Longrightarrow> unat i + 8 * k \<le> 128 \<Longrightarrow>
     Empty (unat (GetFreelistIndex (i + 8 * of_nat k))) w"
proof (induction i w arbitrary: k rule: scan_freelists.induct)
  case (1 i w)
  from "1.prems"(2) have ui: "unat i \<le> 128"
    by simp
  then have le: "i \<le> kMaxBytes"
    by (simp add: kMaxBytes_def word_le_nat_alt)
  from ui have u8: "unat (i + kAlign) = unat i + 8"
    by (simp add: kAlign_def unat_word_ariths)
  from "1.prems"(1) le have inb: "in_bounds (GetFreelistIndex i)"
    by (simp add: scan_freelists.simps [of i w] split: if_splits)
  from "1.prems"(1) le inb have e: "Empty (unat (GetFreelistIndex i)) w"
    by (simp add: scan_freelists.simps [of i w] split: if_splits)
  with "1.prems"(1) le inb have rec: "scan_freelists (i + kAlign) w = Inr None"
    by (simp add: scan_freelists.simps [of i w])
  show ?case
  proof (cases k)
    case 0
    with e show ?thesis by simp
  next
    case (Suc k')
    with "1.prems"(2) u8 have "unat (i + kAlign) + 8 * k' \<le> 128" by simp
    from "1.IH" [OF le _ _ rec this] inb e Suc show ?thesis
      by (simp add: kAlign_def algebra_simps)
  qed
qed

lemma new_arena_nonnull:
  "freespacestart w \<noteq> 0 \<Longrightarrow>
   new_arena bytesget w =
     Inr (w\<lparr>mallocoffset := mallocoffset w + bytesget, freespaceend := freespacestart w + bytesget\<rparr>)"
  by (simp add: new_arena_def ptr_add_def)

lemma ChunkAlloc_exhausted:
  assumes short: "\<not> freespaceend w - freespacestart w \<ge> sz * chunknums"
      "\<not> freespaceend w - freespacestart w \<ge> sz"
    and salv: "salvage (freespaceend w - freespacestart w) w = Inr w1"
    and m: "sys_malloc env (sz * chunknums * 2 + RoundUp (drop_bit 4 (mallocoffset w))) (sysheap w1) = (p, h)"
  shows "ChunkAlloc env sz chunknums w =
     (let bytesget = sz * chunknums * 2 + RoundUp (drop_bit 4 (mallocoffset w));
          w2 = w1\<lparr>freespacestart := p, sysheap := h\<rparr> in
                   if p = 0 then
                     (case scan_freelists sz w2 of
                        Inl e \<Rightarrow> Some (Inl e)
                      | Inr (Some i) \<Rightarrow>
                          (case Pop (unat (GetFreelistIndex i)) w2 of
                             Inl e \<Rightarrow> Some (Inl e)
                           | Inr (blk, w3) \<Rightarrow>
                               (case ptr_add blk i of
                                  Inl e \<Rightarrow> Some (Inl e)
                                | Inr e \<Rightarrow>
                                    ChunkAlloc env sz chunknums
                                      (w3\<lparr>freespacestart := blk, freespaceend := e\<rparr>)))
                      | Inr None \<Rightarrow>
                          (case MallocAllocator_Allocate env bytesget (w2\<lparr>freespaceend := 0\<rparr>) of
                             Inl e \<Rightarrow> Some (Inl e)
                           | Inr (q, w3) \<Rightarrow>
                               (case new_arena bytesget (w3\<lparr>freespacestart := q\<rparr>) of
                                  Inl e \<Rightarrow> Some (Inl e)
                                | Inr w4 \<Rightarrow> ChunkAlloc env sz chunknums w4)))
                   else
                     (case new_arena bytesget w2 of
                        Inl e \<Rightarrow> Some (Inl e)
                      | Inr w4 \<Rightarrow> ChunkAlloc env sz chunknums w4))"
  apply (subst ChunkAlloc.simps)
  apply (simp only: Let_def short if_False salv sum.case m prod.case)
  done

text \<open>
  Claim C2, as amended. When the arena holds less than one block (and less than the
  batch), \<^verbatim>\<open>ChunkAlloc\<close> salvages the remainder, computes the new arena size
  \<open>bytesget = 2 * (size * count) + RoundUp (mallocoffset_ >> 4)\<close> and requests it from the
  system's \<^verbatim>\<open>malloc\<close> directly, with no out-of-memory protocol: when that succeeds the new
  block is the arena and the call starts over. Only when it fails does it scan the size
  classes \<open>size, size + 8, ...\<close> up to 128: the first class with a free block gives up its
  head, which becomes the arena, and the call starts over. Only when every scanned class is
  empty does it request \<open>bytesget\<close> from \<^verbatim>\<open>MallocAllocator::Allocate\<close>, which runs the
  out-of-memory protocol, and start over on the result.
\<close>

theorem ChunkAlloc_escalation_order:
  assumes short: "\<not> freespaceend w - freespacestart w \<ge> sz * chunknums"
      "\<not> freespaceend w - freespacestart w \<ge> sz"
    and bytesget: "bytesget = sz * chunknums * 2 + RoundUp (drop_bit 4 (mallocoffset w))"
    and salv: "salvage (freespaceend w - freespacestart w) w = Inr w1"
    and m: "sys_malloc env bytesget (sysheap w1) = (p, h)"
    and w2: "w2 = w1\<lparr>freespacestart := p, sysheap := h\<rparr>"
  shows
    "(p \<noteq> 0 \<longrightarrow>
        ChunkAlloc env sz chunknums w =
          ChunkAlloc env sz chunknums
            (w2\<lparr>mallocoffset := mallocoffset w2 + bytesget, freespaceend := p + bytesget\<rparr>)) \<and>
     (\<forall>i. p = 0 \<and> scan_freelists sz w2 = Inr (Some i) \<longrightarrow>
        sz \<le> i \<and> i \<le> kMaxBytes \<and> freelist w2 (unat (GetFreelistIndex i)) \<noteq> 0 \<and>
        (\<forall>k. unat sz + 8 * k < unat i \<longrightarrow>
           freelist w2 (unat (GetFreelistIndex (sz + 8 * of_nat k))) = 0) \<and>
        ChunkAlloc env sz chunknums w =
          ChunkAlloc env sz chunknums
            (w2\<lparr>freelist := (freelist w2)
                   (unat (GetFreelistIndex i) := mem w2 (freelist w2 (unat (GetFreelistIndex i)))),
                freespacestart := freelist w2 (unat (GetFreelistIndex i)),
                freespaceend := freelist w2 (unat (GetFreelistIndex i)) + i\<rparr>)) \<and>
     (p = 0 \<and> scan_freelists sz w2 = Inr None \<longrightarrow>
        (\<forall>k. unat sz + 8 * k \<le> 128 \<longrightarrow>
           freelist w2 (unat (GetFreelistIndex (sz + 8 * of_nat k))) = 0) \<and>
        ChunkAlloc env sz chunknums w =
          (case MallocAllocator_Allocate env bytesget (w2\<lparr>freespaceend := 0\<rparr>) of
             Inl e \<Rightarrow> Some (Inl e)
           | Inr (q, w3) \<Rightarrow>
               (case new_arena bytesget (w3\<lparr>freespacestart := q\<rparr>) of
                  Inl e \<Rightarrow> Some (Inl e)
                | Inr w4 \<Rightarrow> ChunkAlloc env sz chunknums w4)))"
proof (intro conjI allI impI)
  assume "p \<noteq> 0"
  with short bytesget salv m w2 show "ChunkAlloc env sz chunknums w =
      ChunkAlloc env sz chunknums
        (w2\<lparr>mallocoffset := mallocoffset w2 + bytesget, freespaceend := p + bytesget\<rparr>)"
    unfolding bytesget
    by (simp add: ChunkAlloc_exhausted [OF short salv m [unfolded bytesget]] new_arena_nonnull Let_def)
next
  fix i
  assume a: "p = 0 \<and> scan_freelists sz w2 = Inr (Some i)"
  let ?idx = "unat (GetFreelistIndex i)"
  from a scan_freelists_Some [of sz w2 i]
  have sc: "sz \<le> i" "i \<le> kMaxBytes" "\<not> Empty ?idx w2"
    "\<And>k. unat sz + 8 * k < unat i \<Longrightarrow> Empty (unat (GetFreelistIndex (sz + 8 * of_nat k))) w2"
    by auto
  then show "sz \<le> i" "i \<le> kMaxBytes" "freelist w2 ?idx \<noteq> 0"
    by (simp_all add: Empty_def)
  from sc(4) show "freelist w2 (unat (GetFreelistIndex (sz + 8 * of_nat k))) = 0"
    if "unat sz + 8 * k < unat i" for k
    using that by (simp add: Empty_def)
  from sc(3) have nz: "freelist w2 ?idx \<noteq> 0"
    by (simp add: Empty_def)
  from a have p0: "p = 0" and sf: "scan_freelists sz w2 = Inr (Some i)"
    by simp_all
  from p0 sf w2 nz show "ChunkAlloc env sz chunknums w =
      ChunkAlloc env sz chunknums
        (w2\<lparr>freelist := (freelist w2)(?idx := mem w2 (freelist w2 ?idx)),
            freespacestart := freelist w2 ?idx, freespaceend := freelist w2 ?idx + i\<rparr>)"
    unfolding bytesget
    by (simp add: ChunkAlloc_exhausted [OF short salv m [unfolded bytesget]] Pop_def ptr_add_def Let_def)
next
  assume a: "p = 0 \<and> scan_freelists sz w2 = Inr None"
  with scan_freelists_None [of sz w2]
  show "freelist w2 (unat (GetFreelistIndex (sz + 8 * of_nat k))) = 0"
    if "unat sz + 8 * k \<le> 128" for k
    using that by (simp add: Empty_def)
  from a have p0: "p = 0" and sf: "scan_freelists sz w2 = Inr None"
    by simp_all
  from p0 sf w2 show "ChunkAlloc env sz chunknums w =
      (case MallocAllocator_Allocate env bytesget (w2\<lparr>freespaceend := 0\<rparr>) of
         Inl e \<Rightarrow> Some (Inl e)
       | Inr (q, w3) \<Rightarrow>
           (case new_arena bytesget (w3\<lparr>freespacestart := q\<rparr>) of
              Inl e \<Rightarrow> Some (Inl e)
            | Inr w4 \<Rightarrow> ChunkAlloc env sz chunknums w4))"
    unfolding bytesget
    by (simp add: ChunkAlloc_exhausted [OF short salv m [unfolded bytesget]] Let_def)
qed

theorem ChunkAlloc_escalation_order_witness:
  "\<not> freespaceend (demo_world 0 4096 8192) - freespacestart (demo_world 0 4096 8192) \<ge> 8 \<and>
   fst (sys_malloc demo_env 320 (sysheap (demo_world 0 4096 8192))) = 4096 \<and>
   (\<exists>w. ChunkAlloc demo_env 8 20 (demo_world 0 4096 8192) = Some (Inr (4096, 20, w)) \<and>
        ncalls (sysheap w) = 0) \<and>
   fst (sys_malloc demo_env 320 (sysheap (scavenge_world 1))) = 0 \<and>
   scan_freelists 8 ((scavenge_world 1)\<lparr>freespacestart := 0\<rparr>) = Inr (Some 16) \<and>
   (\<exists>w. ChunkAlloc demo_env 8 20 (scavenge_world 1) = Some (Inr (8192, 2, w)) \<and>
        ncalls (sysheap w) = 0) \<and>
   fst (sys_malloc demo_env 320 (sysheap (demo_world 2 4096 4096))) = 0 \<and>
   scan_freelists 8 ((demo_world 2 4096 4096)\<lparr>freespacestart := 0\<rparr>) = Inr None \<and>
   (\<exists>w. ChunkAlloc demo_env 8 20 (demo_world 2 4096 4096) = Some (Inr (4096, 20, w)) \<and>
        ncalls (sysheap w) = 1)"
proof -
  let ?A = "demo_world 0 4096 8192"
  let ?B = "scavenge_world 1"
  let ?C = "demo_world 2 4096 4096"
  let ?hA = "\<lparr>brk = 4416, limit = 8192, regs = [(4096, 320)], ncalls = 0\<rparr>"
  have bg: "(320 :: size_t) = 8 * 20 * 2 + RoundUp (drop_bit 4 (mallocoffset ?A))"
    "(320 :: size_t) = 8 * 20 * 2 + RoundUp (drop_bit 4 (mallocoffset ?B))"
    "(320 :: size_t) = 8 * 20 * 2 + RoundUp (drop_bit 4 (mallocoffset ?C))"
    by (simp_all add: RoundUp_alt demo_defs scavenge_world_def)
  have shA: "\<not> freespaceend ?A - freespacestart ?A \<ge> 8 * 20" "\<not> freespaceend ?A - freespacestart ?A \<ge> 8"
    and shB: "\<not> freespaceend ?B - freespacestart ?B \<ge> 8 * 20" "\<not> freespaceend ?B - freespacestart ?B \<ge> 8"
    and shC: "\<not> freespaceend ?C - freespacestart ?C \<ge> 8 * 20" "\<not> freespaceend ?C - freespacestart ?C \<ge> 8"
    by (simp_all add: demo_defs scavenge_world_def)
  have saA: "salvage (freespaceend ?A - freespacestart ?A) ?A = Inr ?A"
    and saB: "salvage (freespaceend ?B - freespacestart ?B) ?B = Inr ?B"
    and saC: "salvage (freespaceend ?C - freespacestart ?C) ?C = Inr ?C"
    by (simp_all add: salvage_def kAlign_def demo_defs scavenge_world_def)
  have mA: "sys_malloc demo_env 320 (sysheap ?A) = (4096, ?hA)"
    and mB: "sys_malloc demo_env 320 (sysheap ?B) = (0, sysheap ?B)"
    and mC: "sys_malloc demo_env 320 (sysheap ?C) = (0, sysheap ?C)"
    by (simp_all add: demo_defs scavenge_world_def)
  have scB: "scan_freelists 8 (?B\<lparr>freespacestart := 0, sysheap := sysheap ?B\<rparr>) = Inr (Some 16)"
    and scC: "scan_freelists 8 (?C\<lparr>freespacestart := 0, sysheap := sysheap ?C\<rparr>) = Inr None"
    by (simp_all add: pool_defs demo_defs scavenge_world_def)
  have A: "\<exists>w. ChunkAlloc demo_env 8 20 ?A = Some (Inr (4096, 20, w)) \<and> ncalls (sysheap w) = 0"
    using ChunkAlloc_escalation_order [OF shA bg(1) saA mA refl, THEN conjunct1]
    by (simp add: ChunkAlloc.simps ptr_add_def demo_defs)
  have B: "\<exists>w. ChunkAlloc demo_env 8 20 ?B = Some (Inr (8192, 2, w)) \<and> ncalls (sysheap w) = 0"
    using ChunkAlloc_escalation_order
      [OF shB bg(2) saB mB refl, THEN conjunct2, THEN conjunct1, THEN spec, of 16] scB
    by (simp add: ChunkAlloc.simps ptr_add_def pool_defs demo_defs scavenge_world_def)
  have C: "\<exists>w. ChunkAlloc demo_env 8 20 ?C = Some (Inr (4096, 20, w)) \<and> ncalls (sysheap w) = 1"
    using ChunkAlloc_escalation_order [OF shC bg(3) saC mC refl, THEN conjunct2, THEN conjunct2] scC
    by (simp add: ChunkAlloc.simps pool_defs demo_defs MallocAllocator_Allocate_def
        MallocInOom_def max_retries_def MallocInOom_loop.simps)
  have scB': "scan_freelists 8 (?B\<lparr>freespacestart := 0\<rparr>) = Inr (Some 16)"
    and scC': "scan_freelists 8 (?C\<lparr>freespacestart := 0\<rparr>) = Inr None"
    by (simp_all add: pool_defs demo_defs scavenge_world_def)
  from shA(2) mA A mB scB' B mC scC' C show ?thesis
    by simp
qed

text \<open>
  Claim C2 as stated has the two requests the other way round (first
  \<^verbatim>\<open>MallocAllocator\<close>, last the direct request). In a state with an exhausted arena, the
  requested class empty and a block free in the class of 16 bytes, a request of the new
  arena size through \<^verbatim>\<open>MallocAllocator::Allocate\<close> ends the process when no handler is
  installed, and runs the handler three times when one is; \<^verbatim>\<open>ChunkAlloc\<close> does neither: it
  returns two blocks cut from the free block of the larger class, and no handler has run.
\<close>

theorem first_request_is_not_through_MallocAllocator:
  "\<not> freespaceend (scavenge_world 0) - freespacestart (scavenge_world 0) \<ge> 8 \<and>
   Empty (unat (GetFreelistIndex 8)) (scavenge_world 0) \<and>
   MallocAllocator_Allocate demo_env
     (8 * 20 * 2 + RoundUp (drop_bit 4 (mallocoffset (scavenge_world 0)))) (scavenge_world 0) =
     Inl Aborted \<and>
   (\<exists>w. ChunkAlloc demo_env 8 20 (scavenge_world 0) = Some (Inr (8192, 2, w))) \<and>
   (\<exists>w. MallocAllocator_Allocate demo_env
     (8 * 20 * 2 + RoundUp (drop_bit 4 (mallocoffset (scavenge_world 1)))) (scavenge_world 1) =
     Inr (0, w) \<and> ncalls (sysheap w) = 3) \<and>
   (\<exists>w. ChunkAlloc demo_env 8 20 (scavenge_world 1) = Some (Inr (8192, 2, w)) \<and>
        ncalls (sysheap w) = 0)"
  by (simp add: scavenge_world_def pool_defs demo_defs ChunkAlloc.simps
      MallocAllocator_Allocate_def MallocInOom_def max_retries_def MallocInOom_loop.simps)

section \<open>The pool block invariant\<close>

subsection \<open>The sizes of the classes, as numbers\<close>






subsection \<open>Chains and owners\<close>


lemma chain_nonnull: "chain m h ps \<Longrightarrow> 0 \<notin> set ps"
  by (induction ps arbitrary: h) auto


lemma chain_null: "chain m 0 ps \<Longrightarrow> ps = []"
  by (cases ps) auto













lemma block_ok_exact: "block_ok G q m \<Longrightarrow> block_ok G q m' \<Longrightarrow> m = m'"
proof (rule ccontr)
  assume a: "block_ok G q m" and b: "block_ok G q m'" and ne: "m \<noteq> m'"
  have *: False if 1: "block_ok G q k" and 2: "block_ok G q l" and lt: "k < l" for k l
  proof -
    from 2 lt have "g_own G (unat q + k) = Some (Block q)" by (simp add: block_ok_def owns_def)
    with 1 show False by (auto simp: block_ok_def only_in_def)
  qed
  from ne have "m < m' \<or> m' < m" by auto
  with *[OF a b] *[OF b a] show False by blast
qed

subsection \<open>A region that changes its owner\<close>





subsection \<open>Push, Pop, and a block handed to a client\<close>






subsection \<open>Carving the arena\<close>








subsection \<open>The system heap, the handler, and a new arena\<close>

















subsection \<open>The remainder of the arena, and a block taken as the arena\<close>



lemma pool_inv0_cong:
  assumes "pool_inv0 regions G w" and "mem w' = mem w" and "freelist w' = freelist w"
    and "regions (sysheap w') = regions (sysheap w)"
  shows "pool_inv0 regions G w'"
  using assms by (simp add: pool_inv0_def lists_ok_def live_ok_def arenas_ok_def)



subsection \<open>ChunkAlloc with an arena that holds a block\<close>

lemma chunk_post_cong: "chunk_post regions G sz n chunk n' w' \<Longrightarrow> g_live G0 = g_live G \<Longrightarrow>
  chunk_post regions G0 sz n chunk n' w'"
  by (simp add: chunk_post_def)



subsection \<open>The scan of the free lists and the size of a new arena\<close>




subsection \<open>ChunkAlloc\<close>



subsection \<open>The count of blocks as an int\<close>


subsection \<open>The loop of ReFill\<close>



subsection \<open>ReFill\<close>



subsection \<open>Allocate and Deallocate, sizes of the pool\<close>

lemma pool_inv_cong:
  assumes "pool_inv regions G w" and "mem w' = mem w" and "freelist w' = freelist w"
    and "regions (sysheap w') = regions (sysheap w)"
    and "freespacestart w' = freespacestart w" and "freespaceend w' = freespaceend w"
  shows "pool_inv regions G w'"
  using assms pool_inv0_cong [of regions G w w']
  by (simp add: pool_inv_def arena_ok_def)




subsection \<open>Allocate and Deallocate, larger sizes\<close>




subsection \<open>The salvage step, the first state, and the concrete system heap\<close>







lemma handler_ok_demo_env: "handler_ok demo_env demo_regions H"
  by (auto simp: handler_ok_def demo_env_def demo_handler_def demo_regions_def split: if_splits)



subsection \<open>The invariant\<close>



end
